theory Spec2Isabelle
  imports Main
begin

section \<open>Backend: the authentication service\<close>

text \<open>
  The NestJS exceptions thrown by the service, with the message passed to the
  constructor. \<open>BadRequestException\<close> is what a validation pipe throws, carrying
  the list of messages of the failed constraints.
\<close>

datatype http_exception =
    ConflictException string
  | UnauthorizedException string
  | BadRequestException "string list"

fun getStatus :: "http_exception \<Rightarrow> nat" where
  "getStatus (ConflictException m) = 409"
| "getStatus (UnauthorizedException m) = 401"
| "getStatus (BadRequestException ms) = 400"

text \<open>
  A document of the user collection. The schema file is not part of the sources at
  hand; the document carries the three fields that \<open>registerUser\<close> passes to the
  model constructor and the \<open>_id\<close> that the database assigns (\<open>doc_id\<close> here).
  \<open>name\<close> is optional, as in the registration data.
\<close>

record UserDocument =
  doc_id :: string
  email :: string
  passwordHash :: string
  name :: "string option"

text \<open>
  The interface \<open>JwtPayload\<close>: \<open>{ name?, iat?, email, sub }\<close>. \<open>loginUser\<close> leaves
  \<open>iat\<close> out; the JWT library adds it when it signs.
\<close>

record JwtPayload =
  payload_name :: "string option"
  payload_iat :: "nat option"
  payload_email :: string
  payload_sub :: string

text \<open>
  A plain JavaScript object is a list of (field, value) pairs. \<open>toJSON\<close> lists the
  fields of a document; an undefined \<open>name\<close> is no field at all.
\<close>

type_synonym json = "(string \<times> string) list"

definition toJSON :: "UserDocument \<Rightarrow> json" where
  "toJSON u =
     [(''_id'', doc_id u), (''email'', email u), (''passwordHash'', passwordHash u)]
     @ (case name u of None \<Rightarrow> [] | Some n \<Rightarrow> [(''name'', n)])"

text \<open>The destructuring \<open>const { passwordHash: _, ...result } = doc.toJSON()\<close>.\<close>

definition omit_passwordHash :: "json \<Rightarrow> json" where
  "omit_passwordHash obj = filter (\<lambda>kv. fst kv \<noteq> ''passwordHash'') obj"

text \<open>
  The collection is the list of its documents in insertion order;
  \<open>userModel.findOne({ email })\<close> returns the first document with that email.
\<close>

definition findOne :: "UserDocument list \<Rightarrow> string \<Rightarrow> UserDocument option" where
  "findOne db e = find (\<lambda>u. email u = e) db"

text \<open>
  \<open>registerUser\<close>. The bcrypt library is a parameter: \<open>hash data rounds salt\<close> is
  \<open>bcrypt.hash(data, rounds)\<close> with the salt it draws made explicit. \<open>oid\<close> is the
  \<open>_id\<close> the database gives the new document. The result is the exception thrown
  or the object returned, together with the collection afterwards.
\<close>

definition registerUser ::
  "(string \<Rightarrow> nat \<Rightarrow> string \<Rightarrow> string) \<Rightarrow> string \<Rightarrow> string \<Rightarrow> UserDocument list
     \<Rightarrow> string \<Rightarrow> string \<Rightarrow> string option
     \<Rightarrow> (http_exception + json) \<times> UserDocument list" where
  "registerUser hash salt oid db em password nm =
     (case findOne db em of
        Some existingUser \<Rightarrow>
          (Inl (ConflictException ''User with this email already exists''), db)
      | None \<Rightarrow>
          (let hashedPassword = hash password 10 salt;
               newUser = \<lparr>doc_id = oid, email = em, passwordHash = hashedPassword, name = nm\<rparr>;
               savedUser = newUser
           in (Inr (omit_passwordHash (toJSON savedUser)), db @ [savedUser])))"

text \<open>
  \<open>loginUser\<close>. \<open>compare\<close> is \<open>bcrypt.compare\<close>, \<open>sign\<close> is \<open>jwtService.sign\<close>.
  The function only reads the collection.
\<close>

record 'tok login_response =
  user :: json
  accessToken :: 'tok

definition loginUser ::
  "(string \<Rightarrow> string \<Rightarrow> bool) \<Rightarrow> (JwtPayload \<Rightarrow> 'tok) \<Rightarrow> UserDocument list
     \<Rightarrow> string \<Rightarrow> string \<Rightarrow> http_exception + 'tok login_response" where
  "loginUser compare sign db em password =
     (case findOne db em of
        None \<Rightarrow> Inl (UnauthorizedException ''Invalid credentials'')
      | Some u \<Rightarrow>
          (let isPasswordValid = compare password (passwordHash u) in
           if \<not> isPasswordValid then Inl (UnauthorizedException ''Invalid credentials'')
           else
             (let payload = \<lparr>payload_name = name u, payload_iat = None,
                             payload_email = email u, payload_sub = doc_id u\<rparr>;
                  token = sign payload
              in Inr \<lparr>user = omit_passwordHash (toJSON u), accessToken = token\<rparr>)))"

text \<open>
  A registration request as it reaches the service, with the two values the
  environment adds (salt and \<open>_id\<close>); \<open>register_all\<close> is the collection after a
  sequence of calls of \<open>registerUser\<close>, whatever each call returned.
\<close>

record registration =
  reg_salt :: string
  reg_oid :: string
  reg_email :: string
  reg_password :: string
  reg_name :: "string option"

fun register_all ::
  "(string \<Rightarrow> nat \<Rightarrow> string \<Rightarrow> string) \<Rightarrow> UserDocument list \<Rightarrow> registration list
     \<Rightarrow> UserDocument list" where
  "register_all hash db [] = db"
| "register_all hash db (r # rs) =
     register_all hash
       (snd (registerUser hash (reg_salt r) (reg_oid r) db
               (reg_email r) (reg_password r) (reg_name r))) rs"

text \<open>
  What the JWT library is assumed to do: decoding a token it signed gives back the
  subject, email and name of the payload (it adds the issued-at and expiry times).
\<close>

definition jwt_roundtrip ::
  "(JwtPayload \<Rightarrow> 'tok) \<Rightarrow> ('tok \<Rightarrow> JwtPayload option) \<Rightarrow> bool" where
  "jwt_roundtrip sign decode \<longleftrightarrow>
     (\<forall>p. \<exists>q. decode (sign p) = Some q \<and> payload_sub q = payload_sub p
            \<and> payload_email q = payload_email p \<and> payload_name q = payload_name p)"

text \<open>
  The bcrypt library reads the first 72 bytes of the data it is given and no
  more. \<open>bcrypt_reads_72\<close> says so of the two parameters: a password is accepted
  against a hash exactly when it agrees on those bytes with the password the
  hash was made of.
\<close>

definition bcrypt_reads_72 ::
  "(string \<Rightarrow> nat \<Rightarrow> string \<Rightarrow> string) \<Rightarrow> (string \<Rightarrow> string \<Rightarrow> bool) \<Rightarrow> bool" where
  "bcrypt_reads_72 hash compare \<longleftrightarrow>
     (\<forall>p' p s. compare p' (hash p 10 s) = (take 72 p' = take 72 p))"

text \<open>
  A bcrypt of that kind for concrete runs. The salted digest is not computed:
  the hash is written as a dollar sign and the bytes that bcrypt reads.
\<close>

definition bcrypt72_hash :: "string \<Rightarrow> nat \<Rightarrow> string \<Rightarrow> string" where
  "bcrypt72_hash data rounds salt = CHR ''$'' # take 72 data"

definition bcrypt72_compare :: "string \<Rightarrow> string \<Rightarrow> bool" where
  "bcrypt72_compare data encrypted \<longleftrightarrow> encrypted = CHR ''$'' # take 72 data"

section \<open>Backend: the controller and the application\<close>

text \<open>
  The body of \<open>POST register\<close>, typed by the class \<open>RegisterUserDto\<close>.
\<close>

record RegisterUserDto =
  dto_email :: string
  dto_password :: string
  dto_name :: "string option"

text \<open>
  The constraints that the decorators of \<open>RegisterUserDto\<close> declare, as the list of
  messages of those that fail: \<open>@IsEmail\<close> and \<open>@IsNotEmpty\<close> on \<open>email\<close>,
  \<open>@IsString\<close>, \<open>@IsNotEmpty\<close> and \<open>@MinLength(8)\<close> on \<open>password\<close>, \<open>@IsString\<close>
  and \<open>@IsOptional\<close> on \<open>name\<close>. The fields are strings here, so \<open>@IsString\<close>
  holds. The email syntax check of the validation library is the parameter
  \<open>isEmail\<close>.
\<close>

definition validate_RegisterUserDto ::
  "(string \<Rightarrow> bool) \<Rightarrow> RegisterUserDto \<Rightarrow> string list" where
  "validate_RegisterUserDto isEmail dto =
     (if isEmail (dto_email dto) then [] else [''Email must be a valid email address.''])
     @ (if dto_email dto \<noteq> [] then [] else [''email should not be empty''])
     @ (if dto_password dto \<noteq> [] then [] else [''password should not be empty''])
     @ (if 8 \<le> length (dto_password dto) then []
        else [''Password must be at least 8 characters long.''])"

text \<open>
  The application object of \<open>main.ts\<close>. \<open>bootstrap\<close> creates it, enables CORS and
  listens; it registers no pipe (there is no call of \<open>useGlobalPipes\<close>, the modules
  provide no pipe and the controller binds none), so \<open>globalPipes\<close> stays empty.
\<close>

datatype pipe = ValidationPipe

record nest_app =
  cors_origin :: "string option"
  globalPipes :: "pipe list"
  port :: "nat option"

definition NestFactory_create :: nest_app where
  "NestFactory_create = \<lparr>cors_origin = None, globalPipes = [], port = None\<rparr>"

definition bootstrap :: "string option \<Rightarrow> nat option \<Rightarrow> nest_app" where
  "bootstrap FRONTEND_URL PORT =
     (let app = NestFactory_create;
          app = app\<lparr>cors_origin :=
                  Some (case FRONTEND_URL of
                          None \<Rightarrow> ''*''
                        | Some u \<Rightarrow> if u = [] then ''*'' else u)\<rparr>;
          app = app\<lparr>port :=
                  Some (case PORT of
                          None \<Rightarrow> 4000
                        | Some p \<Rightarrow> if p = 0 then 4000 else p)\<rparr>
      in app)"

text \<open>
  What the framework does to a \<open>@Body()\<close> parameter before the handler runs: the
  body passes the pipes of the application. A validation pipe checks the
  constraints of the parameter's class and throws \<open>BadRequestException\<close> with the
  messages; with no pipe the body reaches the handler as it came.
\<close>

definition body_pipes ::
  "nest_app \<Rightarrow> (string \<Rightarrow> bool) \<Rightarrow> RegisterUserDto \<Rightarrow> http_exception + RegisterUserDto" where
  "body_pipes app isEmail body =
     (if ValidationPipe \<in> set (globalPipes app) then
        (case validate_RegisterUserDto isEmail body of
           [] \<Rightarrow> Inr body
         | m # ms \<Rightarrow> Inl (BadRequestException (m # ms)))
      else Inr body)"

text \<open>\<open>AuthenticationController.register\<close>, as the application serves it.\<close>

definition controller_register ::
  "nest_app \<Rightarrow> (string \<Rightarrow> bool) \<Rightarrow> (string \<Rightarrow> nat \<Rightarrow> string \<Rightarrow> string) \<Rightarrow> string \<Rightarrow> string
     \<Rightarrow> UserDocument list \<Rightarrow> RegisterUserDto
     \<Rightarrow> (http_exception + json) \<times> UserDocument list" where
  "controller_register app isEmail hash salt oid db body =
     (case body_pipes app isEmail body of
        Inl e \<Rightarrow> (Inl e, db)
      | Inr registrationData \<Rightarrow>
          registerUser hash salt oid db (dto_email registrationData)
            (dto_password registrationData) (dto_name registrationData))"

text \<open>
  The routes of \<open>AuthenticationController\<close> (the revision that has the refresh
  route): the controller prefix \<open>authentication\<close> and the path of each method
  decorator.
\<close>

datatype handler = h_register | h_login | h_refresh | h_getProfile

definition AuthenticationController :: "((string \<times> string) \<times> handler) list" where
  "AuthenticationController =
     [((''POST'', ''authentication/register''), h_register),
      ((''POST'', ''authentication/login''), h_login),
      ((''POST'', ''authentication/refresh''), h_refresh),
      ((''GET'', ''authentication/profile''), h_getProfile)]"

text \<open>
  The other revision of the controller has no method \<open>refresh\<close>.
\<close>

definition AuthenticationController_rev2 :: "((string \<times> string) \<times> handler) list" where
  "AuthenticationController_rev2 =
     [((''POST'', ''authentication/register''), h_register),
      ((''POST'', ''authentication/login''), h_login),
      ((''GET'', ''authentication/profile''), h_getProfile)]"

text \<open>
  The status of the answer when a handler returns: the code given by
  \<open>@HttpCode\<close>, and without that decorator the framework's default, 201 for a
  \<open>POST\<close> handler and 200 for the others. No handler of the controller carries
  \<open>@HttpCode\<close>.
\<close>

definition success_status :: "string \<Rightarrow> nat option \<Rightarrow> nat" where
  "success_status verb httpCode =
     (case httpCode of
        Some code \<Rightarrow> code
      | None \<Rightarrow> if verb = ''POST'' then 201 else 200)"

text \<open>
  The constraints that the decorators of \<open>LoginUserDto\<close> declare: \<open>@IsEmail\<close> and
  \<open>@IsNotEmpty\<close> on \<open>email\<close>, \<open>@IsString\<close>, \<open>@IsNotEmpty\<close> and \<open>@MinLength(1)\<close> on
  \<open>password\<close>.
\<close>

definition validate_LoginUserDto :: "(string \<Rightarrow> bool) \<Rightarrow> string \<Rightarrow> string \<Rightarrow> string list" where
  "validate_LoginUserDto isEmail em password =
     (if isEmail em then [] else [''Email must be a valid email address.''])
     @ (if em \<noteq> [] then [] else [''email should not be empty''])
     @ (if password \<noteq> [] then [] else [''password should not be empty''])
     @ (if 1 \<le> length password then [] else [''Password cannot be empty.''])"

text \<open>
  \<open>AuthenticationController.login\<close>, as the application serves it: the status of
  the answer and the exception thrown or the object returned. The body passes
  the pipes of the application as in \<open>body_pipes\<close>.
\<close>

definition controller_login ::
  "nest_app \<Rightarrow> (string \<Rightarrow> bool) \<Rightarrow> (string \<Rightarrow> string \<Rightarrow> bool) \<Rightarrow> (JwtPayload \<Rightarrow> 'tok)
     \<Rightarrow> UserDocument list \<Rightarrow> string \<Rightarrow> string
     \<Rightarrow> nat \<times> (http_exception + 'tok login_response)" where
  "controller_login app isEmail compare sign db em password =
     (case (if ValidationPipe \<in> set (globalPipes app)
            then validate_LoginUserDto isEmail em password else []) of
        m # ms \<Rightarrow>
          (getStatus (BadRequestException (m # ms)), Inl (BadRequestException (m # ms)))
      | [] \<Rightarrow>
          (case loginUser compare sign db em password of
             Inl e \<Rightarrow> (getStatus e, Inl e)
           | Inr response \<Rightarrow> (success_status ''POST'' None, Inr response)))"

text \<open>\<open>n\<close> login requests in a row with the same body: the list of the answers.\<close>

definition login_attempts ::
  "nat \<Rightarrow> nest_app \<Rightarrow> (string \<Rightarrow> bool) \<Rightarrow> (string \<Rightarrow> string \<Rightarrow> bool) \<Rightarrow> (JwtPayload \<Rightarrow> 'tok)
     \<Rightarrow> UserDocument list \<Rightarrow> string \<Rightarrow> string
     \<Rightarrow> (nat \<times> (http_exception + 'tok login_response)) list" where
  "login_attempts n app isEmail compare sign db em password =
     map (\<lambda>i. controller_login app isEmail compare sign db em password) [0..<n]"

text \<open>
  What a handler can throw: an exception of the framework, or a \<open>TypeError\<close> of
  the language, which the framework answers with status 500.
\<close>

datatype thrown = HttpException http_exception | TypeError string

text \<open>
  The members of the class \<open>AuthenticationService\<close> by name: it defines the two
  methods \<open>registerUser\<close> and \<open>loginUser\<close> and nothing else.
\<close>

datatype service_method = m_registerUser | m_loginUser

definition AuthenticationService_member :: "string \<Rightarrow> service_method option" where
  "AuthenticationService_member member_name =
     map_of [(''registerUser'', m_registerUser), (''loginUser'', m_loginUser)] member_name"

text \<open>
  \<open>AuthenticationController.refresh\<close>: the call
  \<open>this.authService.refreshToken(refreshToken)\<close>. Calling a member that the
  object does not have throws a \<open>TypeError\<close>; otherwise the result is the call of
  the member with the body's \<open>refreshToken\<close>.
\<close>

definition controller_refresh :: "string \<Rightarrow> thrown + service_method \<times> string" where
  "controller_refresh body_refreshToken =
     (case AuthenticationService_member ''refreshToken'' of
        None \<Rightarrow> Inl (TypeError ''this.authService.refreshToken is not a function'')
      | Some m \<Rightarrow> Inr (m, body_refreshToken))"

text \<open>
  The status that a request is answered with: 404 when no route of the
  controller matches, and for a route the status of what its handler did.
\<close>

definition endpoint_status ::
  "((string \<times> string) \<times> handler) list \<Rightarrow> string \<Rightarrow> string \<Rightarrow> thrown + 'a \<Rightarrow> nat" where
  "endpoint_status routes verb path outcome =
     (case map_of routes (verb, path) of
        None \<Rightarrow> 404
      | Some h \<Rightarrow>
          (case outcome of
             Inl (HttpException e) \<Rightarrow> getStatus e
           | Inl (TypeError msg) \<Rightarrow> 500
           | Inr v \<Rightarrow> success_status verb None))"

section \<open>Frontend: the request coordinator\<close>

text \<open>
  An axios request configuration, as far as the coordinator reads or writes it
  (\<open>req_method\<close> is its field \<open>method\<close>):
  \<open>Authorization\<close> is \<open>config.headers.Authorization\<close> and \<open>retry\<close> is the flag
  \<open>config._retry\<close> (absent counts as false). An error carries the configuration of
  the request that failed and \<open>error.response?.status\<close>.
\<close>

record request =
  req_method :: string
  url :: string
  data :: string
  Authorization :: "string option"
  retry :: bool

record axios_error =
  config :: request
  status :: "nat option"
  err_message :: string

text \<open>
  What a run of the interceptor hands back: \<open>Dispatch r\<close> is the call
  \<open>axiosInstance(r)\<close>, whose outcome settles the promise of the request;
  \<open>Reject r e\<close> rejects the promise of request \<open>r\<close> with \<open>e\<close>.
\<close>

datatype effect = Dispatch request | Reject request axios_error

text \<open>
  The state of the client process: the two module variables \<open>isRefreshing\<close> and
  \<open>failedQueue\<close>, the slot \<open>authToken\<close> of the local storage (\<open>TOKEN_KEY\<close>), and
  the state of \<open>useAuthLogic\<close> and \<open>useMessage\<close> (\<open>currentUser\<close> is the state
  variable \<open>user\<close>). An entry of \<open>failedQueue\<close> is the pair of callbacks of a
  promise whose continuation replays one request; it is represented by that
  request. \<open>awaiting\<close> holds the runs of the interceptor that are suspended at
  \<open>await axiosInstance.post('/refresh-token')\<close>: the request each one will
  replay and the refresh request it sent. Its length is the number of refresh
  exchanges in flight. The timer that blanks the message after five seconds and
  the query cache are left out.
\<close>

record client =
  isRefreshing :: bool
  failedQueue :: "request list"
  awaiting :: "(request \<times> request) list"
  authToken :: "string option"
  isAuthenticated :: bool
  currentUser :: "json option"
  activeTab :: string
  message :: string
  messageType :: string

text \<open>JavaScript truthiness of a value that is a string, \<open>null\<close> or \<open>undefined\<close>.\<close>

definition truthy :: "string option \<Rightarrow> bool" where
  "truthy v = (case v of None \<Rightarrow> False | Some t \<Rightarrow> t \<noteq> [])"

text \<open>The state when the module is loaded and the hooks run first.\<close>

definition initial :: "string option \<Rightarrow> client" where
  "initial stored =
     \<lparr>isRefreshing = False, failedQueue = [], awaiting = [], authToken = stored,
      isAuthenticated = truthy stored, currentUser = None,
      activeTab = (if truthy stored then ''profile'' else ''login''),
      message = [], messageType = []\<rparr>"

definition setAuthState :: "string \<Rightarrow> json \<Rightarrow> client \<Rightarrow> client" where
  "setAuthState newAccessToken userData s =
     s\<lparr>authToken := Some newAccessToken, isAuthenticated := True,
       currentUser := Some userData, activeTab := ''profile''\<rparr>"

definition clearAuthState :: "client \<Rightarrow> client" where
  "clearAuthState s =
     s\<lparr>authToken := None, isAuthenticated := False, currentUser := None,
       activeTab := ''login''\<rparr>"

definition displayMessage :: "string \<Rightarrow> string \<Rightarrow> client \<Rightarrow> client" where
  "displayMessage msg type s = s\<lparr>message := msg, messageType := type\<rparr>"

text \<open>The template \<open>`Bearer ${token}`\<close>; \<open>processQueue\<close> defaults \<open>token\<close> to \<open>null\<close>.\<close>

definition bearer :: "string option \<Rightarrow> string" where
  "bearer token = ''Bearer '' @ (case token of None \<Rightarrow> ''null'' | Some t \<Rightarrow> t)"

text \<open>The request interceptor: attach the stored token unless a header is set.\<close>

definition requestInterceptor :: "client \<Rightarrow> request \<Rightarrow> request" where
  "requestInterceptor s cfg =
     (let token = authToken s in
      if truthy token \<and> \<not> truthy (Authorization cfg)
      then cfg\<lparr>Authorization := Some (bearer token)\<rparr>
      else cfg)"

text \<open>
  The continuation of a queued request, run with the token its promise was
  resolved with: set the header, set \<open>_retry\<close>, call \<open>axiosInstance\<close> again.
\<close>

definition replay :: "string option \<Rightarrow> request \<Rightarrow> request" where
  "replay token originalRequest =
     originalRequest\<lparr>Authorization := Some (bearer token), retry := True\<rparr>"

text \<open>
  \<open>processQueue\<close>: reject every queued promise with the error if there is one,
  resolve it with the token otherwise, and empty the queue. Resolving runs the
  continuation \<open>replay\<close>; rejecting passes the error on.
\<close>

definition processQueue ::
  "axios_error option \<Rightarrow> string option \<Rightarrow> client \<Rightarrow> client \<times> effect list" where
  "processQueue error token s =
     (s\<lparr>failedQueue := []\<rparr>,
      map (\<lambda>prom. case error of
                    Some e \<Rightarrow> Reject prom e
                  | None \<Rightarrow> Dispatch (replay token prom))
          (failedQueue s))"

text \<open>The request of \<open>axiosInstance.post('/refresh-token')\<close>.\<close>

definition refreshRequest :: request where
  "refreshRequest =
     \<lparr>req_method = ''post'', url = ''/refresh-token'', data = [], Authorization = None,
      retry = False\<rparr>"

text \<open>
  The error handler of the response interceptor, up to its first suspension. In
  the last 401 branch it marks the request, sets the flag, sends the refresh
  request (through the request interceptor) and suspends.
\<close>

definition responseInterceptor :: "client \<Rightarrow> axios_error \<Rightarrow> client \<times> effect list" where
  "responseInterceptor s error =
     (let originalRequest = config error in
      if status error = Some 401 \<and> \<not> retry originalRequest then
        if url originalRequest = ''/refresh-token'' \<or> url originalRequest = ''/login'' then
          (clearAuthState s, [Reject originalRequest error])
        else if isRefreshing s then
          (s\<lparr>failedQueue := failedQueue s @ [originalRequest]\<rparr>, [])
        else
          (let originalRequest = originalRequest\<lparr>retry := True\<rparr>;
               sent = requestInterceptor s refreshRequest
           in (s\<lparr>isRefreshing := True,
                  awaiting := awaiting s @ [(originalRequest, sent)]\<rparr>,
               [Dispatch sent]))
      else (s, [Reject originalRequest error]))"

text \<open>
  The suspended run resumes with the refresh response: the \<open>try\<close> block after the
  \<open>await\<close>. The replay of the own request is called first, the continuations of
  the queued promises run right after it.
\<close>

definition refresh_fulfilled :: "client \<Rightarrow> string \<Rightarrow> client \<times> effect list" where
  "refresh_fulfilled s newAccessToken =
     (case awaiting s of
        [] \<Rightarrow> (s, [])
      | (originalRequest, sent) # frames \<Rightarrow>
          (let s = s\<lparr>awaiting := frames\<rparr>;
               s = s\<lparr>authToken := Some newAccessToken\<rparr>;
               s = s\<lparr>isRefreshing := False\<rparr>;
               (s, released) = processQueue None (Some newAccessToken) s;
               originalRequest =
                 originalRequest\<lparr>Authorization := Some (bearer (Some newAccessToken))\<rparr>
           in (s, Dispatch originalRequest # released)))"

text \<open>
  The refresh request fails with status \<open>st\<close> (none for a network failure) and
  message \<open>msg\<close>. Its error passes the response interceptor like any other, which
  rejects it further, and the suspended run resumes in its \<open>catch\<close> block.
\<close>

definition refresh_rejected :: "client \<Rightarrow> nat option \<Rightarrow> string \<Rightarrow> client \<times> effect list" where
  "refresh_rejected s st msg =
     (case awaiting s of
        [] \<Rightarrow> (s, [])
      | (originalRequest, sent) # frames \<Rightarrow>
          (let refreshError = \<lparr>config = sent, status = st, err_message = msg\<rparr>;
               s = fst (responseInterceptor s refreshError);
               s = s\<lparr>awaiting := frames\<rparr>;
               s = s\<lparr>isRefreshing := False\<rparr>;
               (s, released) = processQueue (Some refreshError) None s;
               s = clearAuthState s;
               s = displayMessage ''Session expired. Please log in again.'' ''error'' s
           in (s, Reject originalRequest refreshError # released)))"

text \<open>
  The events of a client process: a request fails, the refresh exchange in
  flight settles, a login succeeds (\<open>onSuccess\<close> of the login mutation), the
  \<open>finally\<close> block of \<open>handleLogout\<close> runs. \<open>run\<close> handles a sequence of events
  and collects what they hand back.
\<close>

datatype event =
    ResponseError axios_error
  | RefreshFulfilled string
  | RefreshRejected "nat option" string
  | LoginSucceeded string json
  | LoggedOut

fun step :: "client \<Rightarrow> event \<Rightarrow> client \<times> effect list" where
  "step s (ResponseError error) = responseInterceptor s error"
| "step s (RefreshFulfilled newAccessToken) = refresh_fulfilled s newAccessToken"
| "step s (RefreshRejected st msg) = refresh_rejected s st msg"
| "step s (LoginSucceeded newAccessToken userData) =
     (displayMessage ''Login successful! Welcome.'' ''success''
        (setAuthState newAccessToken userData s), [])"
| "step s LoggedOut =
     (displayMessage ''Logged out successfully.'' ''success'' (clearAuthState s), [])"

fun run :: "client \<Rightarrow> event list \<Rightarrow> client \<times> effect list" where
  "run s [] = (s, [])"
| "run s (ev # evs) =
     (case step s ev of (s1, out1) \<Rightarrow>
        (case run s1 evs of (s2, out2) \<Rightarrow> (s2, out1 @ out2)))"

text \<open>
  A failure that the coordinator answers with the refresh cycle: a 401 for a
  request that is not marked as retried and not to \<open>/refresh-token\<close> or \<open>/login\<close>.
\<close>

definition eligible :: "axios_error \<Rightarrow> bool" where
  "eligible error \<longleftrightarrow>
     status error = Some 401 \<and> \<not> retry (config error)
     \<and> url (config error) \<noteq> ''/refresh-token'' \<and> url (config error) \<noteq> ''/login''"

text \<open>
  The invariant of the coordinator: the flag is set exactly while a refresh
  exchange is in flight, at most one is, requests wait in the queue only while
  one is, the request in flight is the refresh call, and the requests held
  (waiting or queued) are not to an auth endpoint.
\<close>

definition coordinator_inv :: "client \<Rightarrow> bool" where
  "coordinator_inv s \<longleftrightarrow>
     isRefreshing s = (awaiting s \<noteq> [])
     \<and> length (awaiting s) \<le> 1
     \<and> (isRefreshing s \<or> failedQueue s = [])
     \<and> list_all (\<lambda>f. url (snd f) = ''/refresh-token'' \<and> \<not> retry (snd f)
                     \<and> url (fst f) \<noteq> ''/refresh-token'' \<and> url (fst f) \<noteq> ''/login'')
          (awaiting s)
     \<and> list_all (\<lambda>r. url r \<noteq> ''/refresh-token'' \<and> url r \<noteq> ''/login'') (failedQueue s)"

section \<open>Backend: properties of the service\<close>

lemma findOne_append:
  "findOne (db @ ys) e = (case findOne db e of Some u \<Rightarrow> Some u | None \<Rightarrow> findOne ys e)"
  by (induction db) (auto simp: findOne_def)

lemma registerUser_conflict:
  "findOne db em = Some u \<Longrightarrow>
   registerUser hash salt oid db em pw nm =
     (Inl (ConflictException ''User with this email already exists''), db)"
  by (simp add: registerUser_def Let_def)

lemma registerUser_fresh:
  "findOne db em = None \<Longrightarrow>
   registerUser hash salt oid db em pw nm =
     (Inr (omit_passwordHash (toJSON \<lparr>doc_id = oid, email = em,
             passwordHash = hash pw 10 salt, name = nm\<rparr>)),
      db @ [\<lparr>doc_id = oid, email = em, passwordHash = hash pw 10 salt, name = nm\<rparr>])"
  by (simp add: registerUser_def Let_def)

lemma registerUser_keeps_found:
  "findOne db e = Some u \<Longrightarrow>
   findOne (snd (registerUser hash salt oid db em pw nm)) e = Some u"
  by (cases "findOne db em") (simp_all add: registerUser_def findOne_append Let_def)

lemma register_all_keeps_found:
  "findOne db e = Some u \<Longrightarrow> findOne (register_all hash db rs) e = Some u"
  by (induction rs arbitrary: db) (simp_all add: registerUser_keeps_found)

lemma findOne_registered:
  "findOne db em = None \<Longrightarrow>
   findOne (snd (registerUser hash salt oid db em pw nm)) em =
     Some \<lparr>doc_id = oid, email = em, passwordHash = hash pw 10 salt, name = nm\<rparr>"
  by (simp add: registerUser_fresh findOne_append) (simp add: findOne_def)

text \<open>
  Claim C5. A registration with an email that no stored user has succeeds and
  returns the created user. Registering the same email again, at once or after
  any further registrations, fails with the conflict exception (status 409), and
  the collection after the failed call is the collection before it. The service
  asks nothing of the payload, so no validity condition is needed.
\<close>

theorem register_twice_conflict:
  assumes first: "findOne db em = None"
      and db1: "db1 = snd (registerUser hash salt oid db em pw nm)"
      and db2: "db2 = register_all hash db1 rs"
  shows "(\<exists>created. registerUser hash salt oid db em pw nm = (Inr created, db1)
            \<and> map_of created ''email'' = Some em)
       \<and> registerUser hash salt' oid' db2 em pw' nm'
           = (Inl (ConflictException ''User with this email already exists''), db2)
       \<and> getStatus (ConflictException ''User with this email already exists'') = 409"
proof -
  have "findOne db2 em \<noteq> None"
    using first db1 db2 findOne_registered register_all_keeps_found by fastforce
  then obtain u where "findOne db2 em = Some u" by blast
  then have again: "registerUser hash salt' oid' db2 em pw' nm'
           = (Inl (ConflictException ''User with this email already exists''), db2)"
    by (rule registerUser_conflict)
  have "registerUser hash salt oid db em pw nm
          = (Inr (omit_passwordHash (toJSON \<lparr>doc_id = oid, email = em,
               passwordHash = hash pw 10 salt, name = nm\<rparr>)), db1)"
    using first db1 by (simp add: registerUser_fresh)
  moreover have "map_of (omit_passwordHash (toJSON \<lparr>doc_id = oid, email = em,
               passwordHash = hash pw 10 salt, name = nm\<rparr>)) ''email'' = Some em"
    by (simp add: omit_passwordHash_def toJSON_def)
  ultimately show ?thesis using again by simp
qed

text \<open>
  Claim C4, amended. Take a user whose registration succeeded, and any
  registrations after it. Login with the registered email and password is
  answered with status 201 and \<open>{ user, accessToken }\<close>: the token decodes to the
  \<open>_id\<close> of the stored user as subject, and to the registered email and name,
  and \<open>user\<close> is the object the registration returned. Login with a password
  that differs from the registered one within its first 72 bytes is answered
  with status 401 and the exception \<open>Invalid credentials\<close> at every one of \<open>n\<close>
  attempts. The libraries are parameters: bcrypt reads 72 bytes, and the JWT
  library decodes what it signed.
\<close>

theorem login_registered_user:
  assumes bcrypt: "bcrypt_reads_72 hash compare"
      and jwt_ok: "jwt_roundtrip sign decode"
      and fresh: "findOne db em = None"
      and db1: "db1 = snd (registerUser hash salt oid db em pw nm)"
      and db2: "db2 = register_all hash db1 rs"
      and app: "app = bootstrap FRONTEND_URL PORT"
  shows "(\<exists>resp q. controller_login app isEmail compare sign db2 em pw = (201, Inr resp)
            \<and> decode (accessToken resp) = Some q
            \<and> payload_sub q = oid \<and> payload_email q = em \<and> payload_name q = nm
            \<and> Inr (user resp) = fst (registerUser hash salt oid db em pw nm))
       \<and> (\<forall>pw'. take 72 pw' \<noteq> take 72 pw \<longrightarrow>
            (\<forall>r \<in> set (login_attempts n app isEmail compare sign db2 em pw').
               r = (401, Inl (UnauthorizedException ''Invalid credentials''))))"
proof -
  let ?u = "\<lparr>doc_id = oid, email = em, passwordHash = hash pw 10 salt, name = nm\<rparr>"
  have found: "findOne db2 em = Some ?u"
    using fresh db1 db2 by (simp add: findOne_registered register_all_keeps_found)
  have cmp: "\<And>pw'. compare pw' (hash pw 10 salt) = (take 72 pw' = take 72 pw)"
    using bcrypt by (simp add: bcrypt_reads_72_def)
  have pipes: "globalPipes app = []"
    using app by (simp add: bootstrap_def NestFactory_create_def Let_def)
  let ?p = "\<lparr>payload_name = nm, payload_iat = None, payload_email = em, payload_sub = oid\<rparr>"
  have login: "loginUser compare sign db2 em pw
                 = Inr \<lparr>user = omit_passwordHash (toJSON ?u), accessToken = sign ?p\<rparr>"
    using found cmp by (simp add: loginUser_def Let_def)
  have served: "controller_login app isEmail compare sign db2 em pw
                 = (201, Inr \<lparr>user = omit_passwordHash (toJSON ?u), accessToken = sign ?p\<rparr>)"
    using login pipes by (simp add: controller_login_def success_status_def)
  obtain q where q: "decode (sign ?p) = Some q" "payload_sub q = oid"
      "payload_email q = em" "payload_name q = nm"
    using jwt_ok unfolding jwt_roundtrip_def by (metis JwtPayload.select_convs(1,3,4))
  have ok: "\<exists>resp q. controller_login app isEmail compare sign db2 em pw = (201, Inr resp)
            \<and> decode (accessToken resp) = Some q
            \<and> payload_sub q = oid \<and> payload_email q = em \<and> payload_name q = nm
            \<and> Inr (user resp) = fst (registerUser hash salt oid db em pw nm)"
    using served q fresh by (simp add: registerUser_fresh)
  have bad: "\<And>pw'. take 72 pw' \<noteq> take 72 pw \<Longrightarrow>
      controller_login app isEmail compare sign db2 em pw'
        = (401, Inl (UnauthorizedException ''Invalid credentials''))"
    using found cmp pipes by (simp add: controller_login_def loginUser_def Let_def)
  show ?thesis using ok bad by (simp add: login_attempts_def)
qed

text \<open>
  Claim C6. A registration with an email that no stored user has succeeds. The
  stored document has the fields \<open>_id\<close>, \<open>email\<close>, \<open>passwordHash\<close> and \<open>name\<close>
  only; \<open>passwordHash\<close> holds the bcrypt hash of the password, and the password
  is the value of no field (unless it is the email, name or id given, or its own
  hash). The stored document and the result depend on the password through its
  hash alone. The object returned is the stored document without the field
  \<open>passwordHash\<close>.
\<close>

theorem register_stores_hash_only:
  assumes fresh: "findOne db em = None"
  shows "\<exists>created stored.
           registerUser hash salt oid db em pw nm = (Inr created, db @ [stored])
         \<and> map_of (toJSON stored) ''passwordHash'' = Some (hash pw 10 salt)
         \<and> fst ` set (toJSON stored) \<subseteq> {''_id'', ''email'', ''passwordHash'', ''name''}
         \<and> (pw \<notin> {oid, em, hash pw 10 salt} \<and> nm \<noteq> Some pw
              \<longrightarrow> pw \<notin> snd ` set (toJSON stored))
         \<and> ''passwordHash'' \<notin> fst ` set created
         \<and> set created = set (toJSON stored) - {(''passwordHash'', hash pw 10 salt)}
         \<and> (\<forall>pw2 salt2. hash pw2 10 salt2 = hash pw 10 salt \<longrightarrow>
               registerUser hash salt2 oid db em pw2 nm = registerUser hash salt oid db em pw nm)"
  using fresh
  by (cases nm) (auto simp: registerUser_fresh toJSON_def omit_passwordHash_def)

text \<open>
  Claim C9. A login with an email that no stored user has, and a login with a
  stored email and a password that \<open>bcrypt.compare\<close> rejects, return the same
  value: the 401 exception with the message \<open>Invalid credentials\<close>.
\<close>

theorem login_failure_indistinguishable:
  assumes unknown: "findOne db em1 = None"
      and known: "findOne db em2 = Some u"
      and wrong: "\<not> compare pw2 (passwordHash u)"
  shows "loginUser compare sign db em1 pw1 = loginUser compare sign db em2 pw2
       \<and> loginUser compare sign db em1 pw1 = Inl (UnauthorizedException ''Invalid credentials'')
       \<and> getStatus (UnauthorizedException ''Invalid credentials'') = 401"
  using assms by (simp add: loginUser_def)

text \<open>
  Claim C3 at any refresh artifact. The service has no member \<open>refreshToken\<close>, so
  the handler of \<open>POST authentication/refresh\<close> throws a \<open>TypeError\<close> and the
  request is answered with status 500: neither a new access token nor a 401. In
  the other revision of the controller the request matches no route and is
  answered with 404. The path \<open>refresh-token\<close> is a route of neither.
\<close>

theorem refresh_endpoint_throws_type_error:
  "map_of AuthenticationController (''POST'', ''authentication/refresh'') = Some h_refresh
   \<and> AuthenticationService_member ''refreshToken'' = None
   \<and> controller_refresh artifact
       = Inl (TypeError ''this.authService.refreshToken is not a function'')
   \<and> endpoint_status AuthenticationController ''POST'' ''authentication/refresh''
         (controller_refresh artifact) = 500
   \<and> endpoint_status AuthenticationController_rev2 ''POST'' ''authentication/refresh''
         (controller_refresh artifact) = 404
   \<and> endpoint_status AuthenticationController ''POST'' ''authentication/refresh-token''
         (controller_refresh artifact) = 404
   \<and> endpoint_status AuthenticationController_rev2 ''POST'' ''authentication/refresh-token''
         (controller_refresh artifact) = 404"
  by (simp add: AuthenticationController_def AuthenticationController_rev2_def
      AuthenticationService_member_def controller_refresh_def endpoint_status_def)

text \<open>
  Claim C10 at a password of seven characters. The application that \<open>bootstrap\<close>
  builds has no validation pipe, so the constraint \<open>@MinLength(8)\<close> of
  \<open>RegisterUserDto\<close>, which this password breaks, is never checked: the call
  returns the created user and the collection holds a new document.
\<close>

theorem short_password_is_registered:
  "controller_register (bootstrap FRONTEND_URL PORT) isEmail hash salt oid []
      \<lparr>dto_email = ''a@x.com'', dto_password = ''abc1234'', dto_name = None\<rparr>
    = (Inr [(''_id'', oid), (''email'', ''a@x.com'')],
       [\<lparr>doc_id = oid, email = ''a@x.com'', passwordHash = hash ''abc1234'' 10 salt,
         name = None\<rparr>])
   \<and> ''Password must be at least 8 characters long.''
        \<in> set (validate_RegisterUserDto isEmail
             \<lparr>dto_email = ''a@x.com'', dto_password = ''abc1234'', dto_name = None\<rparr>)"
  by (simp add: controller_register_def body_pipes_def bootstrap_def NestFactory_create_def
      registerUser_def findOne_def toJSON_def omit_passwordHash_def
      validate_RegisterUserDto_def Let_def)

section \<open>Frontend: properties of the coordinator\<close>

lemma requestInterceptor_refreshRequest:
  "url (requestInterceptor s refreshRequest) = ''/refresh-token''
   \<and> \<not> retry (requestInterceptor s refreshRequest)"
  by (simp add: requestInterceptor_def refreshRequest_def Let_def)

lemma responseInterceptor_start:
  "\<not> isRefreshing s \<Longrightarrow> eligible e \<Longrightarrow>
   responseInterceptor s e =
     (s\<lparr>isRefreshing := True,
        awaiting := awaiting s @ [((config e)\<lparr>retry := True\<rparr>,
                                   requestInterceptor s refreshRequest)]\<rparr>,
      [Dispatch (requestInterceptor s refreshRequest)])"
  by (simp add: responseInterceptor_def eligible_def Let_def)

lemma responseInterceptor_enqueue:
  "isRefreshing s \<Longrightarrow> eligible e \<Longrightarrow>
   responseInterceptor s e = (s\<lparr>failedQueue := failedQueue s @ [config e]\<rparr>, [])"
  by (simp add: responseInterceptor_def eligible_def Let_def)

lemma run_enqueue_all:
  "isRefreshing s \<Longrightarrow> list_all eligible es \<Longrightarrow>
   run s (map ResponseError es) = (s\<lparr>failedQueue := failedQueue s @ map config es\<rparr>, [])"
proof (induction es arbitrary: s)
  case Nil
  then show ?case by simp
next
  case (Cons e es)
  have "run (s\<lparr>failedQueue := failedQueue s @ [config e]\<rparr>) (map ResponseError es)
        = (s\<lparr>failedQueue := failedQueue s @ [config e]\<rparr>
             \<lparr>failedQueue := failedQueue (s\<lparr>failedQueue := failedQueue s @ [config e]\<rparr>)
                               @ map config es\<rparr>, [])"
    using Cons.prems by (intro Cons.IH) simp_all
  then show ?case using Cons.prems by (simp add: responseInterceptor_enqueue)
qed

lemma run_concurrent_401s:
  assumes "\<not> isRefreshing s" and "list_all eligible (e0 # es)"
  shows "run s (map ResponseError (e0 # es)) =
     (s\<lparr>isRefreshing := True,
        awaiting := awaiting s @ [((config e0)\<lparr>retry := True\<rparr>,
                                   requestInterceptor s refreshRequest)],
        failedQueue := failedQueue s @ map config es\<rparr>,
      [Dispatch (requestInterceptor s refreshRequest)])"
  using assms by (simp add: responseInterceptor_start run_enqueue_all)

lemma refresh_fulfilled_one:
  assumes "awaiting s = [(r0, sent)]"
  shows "refresh_fulfilled s t =
     (s\<lparr>awaiting := [], authToken := Some t, isRefreshing := False, failedQueue := []\<rparr>,
      Dispatch (r0\<lparr>Authorization := Some (bearer (Some t))\<rparr>)
        # map (\<lambda>r. Dispatch (replay (Some t) r)) (failedQueue s))"
  using assms by (simp add: refresh_fulfilled_def processQueue_def replay_def Let_def)

lemma refresh_rejected_one:
  assumes "awaiting s = [(r0, sent)]" and "url sent = ''/refresh-token''" and "\<not> retry sent"
  shows "refresh_rejected s st msg =
     (displayMessage ''Session expired. Please log in again.'' ''error''
        (clearAuthState (s\<lparr>awaiting := [], isRefreshing := False, failedQueue := []\<rparr>)),
      Reject r0 \<lparr>config = sent, status = st, err_message = msg\<rparr>
        # map (\<lambda>r. Reject r \<lparr>config = sent, status = st, err_message = msg\<rparr>) (failedQueue s))"
  using assms
  by (simp add: refresh_rejected_def responseInterceptor_def processQueue_def Let_def
      clearAuthState_def displayMessage_def)

lemma coordinator_inv_initial: "coordinator_inv (initial stored)"
  by (simp add: coordinator_inv_def initial_def)

lemma coordinator_inv_responseInterceptor:
  "coordinator_inv s \<Longrightarrow> coordinator_inv (fst (responseInterceptor s e))"
  by (auto simp: coordinator_inv_def responseInterceptor_def Let_def clearAuthState_def
      requestInterceptor_refreshRequest)

lemma coordinator_inv_refresh_fulfilled:
  "coordinator_inv s \<Longrightarrow> coordinator_inv (fst (refresh_fulfilled s t))"
  by (cases "awaiting s")
     (auto simp: coordinator_inv_def refresh_fulfilled_def processQueue_def Let_def)

lemma coordinator_inv_refresh_rejected:
  "coordinator_inv s \<Longrightarrow> coordinator_inv (fst (refresh_rejected s st msg))"
  by (cases "awaiting s")
     (auto simp: coordinator_inv_def refresh_rejected_def processQueue_def Let_def
        responseInterceptor_def clearAuthState_def displayMessage_def)

lemma coordinator_inv_step: "coordinator_inv s \<Longrightarrow> coordinator_inv (fst (step s ev))"
proof (cases ev)
  case (ResponseError e)
  then show "coordinator_inv s \<Longrightarrow> ?thesis" by (simp add: coordinator_inv_responseInterceptor)
next
  case (RefreshFulfilled t)
  then show "coordinator_inv s \<Longrightarrow> ?thesis" by (simp add: coordinator_inv_refresh_fulfilled)
next
  case (RefreshRejected st msg)
  then show "coordinator_inv s \<Longrightarrow> ?thesis" by (simp add: coordinator_inv_refresh_rejected)
next
  case (LoginSucceeded t u)
  then show "coordinator_inv s \<Longrightarrow> ?thesis"
    by (auto simp: coordinator_inv_def setAuthState_def displayMessage_def)
next
  case LoggedOut
  then show "coordinator_inv s \<Longrightarrow> ?thesis"
    by (auto simp: coordinator_inv_def clearAuthState_def displayMessage_def)
qed

lemma coordinator_inv_run: "coordinator_inv s \<Longrightarrow> coordinator_inv (fst (run s evs))"
proof (induction evs arbitrary: s)
  case Nil
  then show ?case by simp
next
  case (Cons ev evs)
  have "coordinator_inv (fst (step s ev))" using Cons.prems by (rule coordinator_inv_step)
  then have "coordinator_inv (fst (run (fst (step s ev)) evs))" by (rule Cons.IH)
  then show ?case by (cases "step s ev"; cases "run (fst (step s ev)) evs") simp
qed

lemma idle_reachable:
  assumes "s = fst (run (initial stored) evs)" and "\<not> isRefreshing s"
  shows "awaiting s = [] \<and> failedQueue s = [] \<and> coordinator_inv s"
proof -
  have "coordinator_inv s"
    using assms(1) coordinator_inv_initial coordinator_inv_run by simp
  then show ?thesis using assms(2) by (auto simp: coordinator_inv_def)
qed

lemma burst_state:
  assumes reach: "s = fst (run (initial stored) evs)"
      and idle: "\<not> isRefreshing s"
      and elig: "list_all eligible (e0 # es)"
  shows "run s (map ResponseError (e0 # es)) =
     (s\<lparr>isRefreshing := True,
        awaiting := [((config e0)\<lparr>retry := True\<rparr>, requestInterceptor s refreshRequest)],
        failedQueue := map config es\<rparr>,
      [Dispatch (requestInterceptor s refreshRequest)])"
  using run_concurrent_401s [OF idle elig] idle_reachable [OF reach idle] by simp

text \<open>
  Claim C1. Let the client be in any state it can reach with no refresh exchange
  in flight, and let N requests (\<open>e0\<close> first, then \<open>es\<close>) fail with 401 before a
  refresh settles, each to a non-auth endpoint and not marked as retried (the
  other cases are claims C7 and C8). Then exactly one request is sent, the
  refresh request; one exchange is in flight; every request after the first is
  in the queue. When the refresh succeeds with token \<open>t\<close>, all N requests are
  replayed with \<open>Bearer t\<close> and the token is stored; when it fails, all N are
  rejected with the refresh error. At no later time is more than one refresh
  exchange in flight.
\<close>

theorem single_refresh_for_concurrent_401s:
  assumes reach: "s = fst (run (initial stored) evs)"
      and idle: "\<not> isRefreshing s"
      and elig: "list_all eligible (e0 # es)"
      and burst: "run s (map ResponseError (e0 # es)) = (s1, out1)"
  shows "out1 = [Dispatch (requestInterceptor s refreshRequest)]
       \<and> url (requestInterceptor s refreshRequest) = ''/refresh-token''
       \<and> isRefreshing s1 \<and> length (awaiting s1) = 1
       \<and> failedQueue s1 = map config es
       \<and> snd (refresh_fulfilled s1 t)
           = map (\<lambda>e. Dispatch (replay (Some t) (config e))) (e0 # es)
       \<and> authToken (fst (refresh_fulfilled s1 t)) = Some t
       \<and> awaiting (fst (refresh_fulfilled s1 t)) = []
       \<and> snd (refresh_rejected s1 st msg)
           = Reject ((config e0)\<lparr>retry := True\<rparr>)
               \<lparr>config = requestInterceptor s refreshRequest, status = st, err_message = msg\<rparr>
             # map (\<lambda>e. Reject (config e)
                     \<lparr>config = requestInterceptor s refreshRequest, status = st,
                      err_message = msg\<rparr>) es
       \<and> awaiting (fst (refresh_rejected s1 st msg)) = []
       \<and> (\<forall>evs'. length (awaiting (fst (run s1 evs'))) \<le> 1)"
proof -
  let ?sent = "requestInterceptor s refreshRequest"
  let ?r0 = "(config e0)\<lparr>retry := True\<rparr>"
  have s1: "s1 = s\<lparr>isRefreshing := True, awaiting := [(?r0, ?sent)],
                    failedQueue := map config es\<rparr>"
    and out1: "out1 = [Dispatch ?sent]"
    using burst burst_state [OF reach idle elig] by simp_all
  have aw: "awaiting s1 = [(?r0, ?sent)]" and q: "failedQueue s1 = map config es"
    and fl: "isRefreshing s1"
    using s1 by simp_all
  have sent: "url ?sent = ''/refresh-token''" "\<not> retry ?sent"
    using requestInterceptor_refreshRequest by simp_all
  have ok: "refresh_fulfilled s1 t =
      (s1\<lparr>awaiting := [], authToken := Some t, isRefreshing := False, failedQueue := []\<rparr>,
       Dispatch (?r0\<lparr>Authorization := Some (bearer (Some t))\<rparr>)
         # map (\<lambda>r. Dispatch (replay (Some t) r)) (failedQueue s1))"
    using aw by (rule refresh_fulfilled_one)
  have ko: "refresh_rejected s1 st msg =
      (displayMessage ''Session expired. Please log in again.'' ''error''
         (clearAuthState (s1\<lparr>awaiting := [], isRefreshing := False, failedQueue := []\<rparr>)),
       Reject ?r0 \<lparr>config = ?sent, status = st, err_message = msg\<rparr>
         # map (\<lambda>r. Reject r \<lparr>config = ?sent, status = st, err_message = msg\<rparr>)
             (failedQueue s1))"
    using aw sent by (rule refresh_rejected_one)
  have inv1: "coordinator_inv s1"
  proof -
    have "coordinator_inv s" using idle_reachable [OF reach idle] by simp
    then have "coordinator_inv (fst (run s (map ResponseError (e0 # es))))"
      by (rule coordinator_inv_run)
    then show ?thesis using burst by simp
  qed
  have later: "\<forall>evs'. length (awaiting (fst (run s1 evs'))) \<le> 1"
  proof
    fix evs'
    have "coordinator_inv (fst (run s1 evs'))" using inv1 by (rule coordinator_inv_run)
    then show "length (awaiting (fst (run s1 evs'))) \<le> 1" by (simp add: coordinator_inv_def)
  qed
  have c1: "snd (refresh_fulfilled s1 t)
           = map (\<lambda>e. Dispatch (replay (Some t) (config e))) (e0 # es)"
    using ok q by (simp add: replay_def comp_def)
  have c2: "authToken (fst (refresh_fulfilled s1 t)) = Some t"
    "awaiting (fst (refresh_fulfilled s1 t)) = []"
    using ok by simp_all
  have c3: "snd (refresh_rejected s1 st msg)
           = Reject ?r0 \<lparr>config = ?sent, status = st, err_message = msg\<rparr>
             # map (\<lambda>e. Reject (config e) \<lparr>config = ?sent, status = st, err_message = msg\<rparr>) es"
    using ko q by (simp add: comp_def)
  have c4: "awaiting (fst (refresh_rejected s1 st msg)) = []"
    using ko by (simp add: displayMessage_def clearAuthState_def)
  show ?thesis using out1 sent(1) fl aw q c1 c2 c3 c4 later by simp
qed

text \<open>
  Claim C2, amended. When the refresh exchange fails after a request to a
  non-auth endpoint received a 401, the coordinator rejects the promise of that
  request and of every queued request with the error of the refresh exchange,
  empties the queue, removes the token from the local storage, resets the
  authentication state and shows the message
  \<open>Session expired. Please log in again.\<close> as an error.
\<close>

theorem refresh_failure_releases_and_clears:
  assumes reach: "s = fst (run (initial stored) evs)"
      and idle: "\<not> isRefreshing s"
      and elig: "list_all eligible (e0 # es)"
      and burst: "run s (map ResponseError (e0 # es)) = (s1, out1)"
      and fail: "refresh_rejected s1 st msg = (s2, out2)"
      and err: "refreshError =
                  \<lparr>config = requestInterceptor s refreshRequest, status = st, err_message = msg\<rparr>"
  shows "out2 = Reject ((config e0)\<lparr>retry := True\<rparr>) refreshError
                # map (\<lambda>e. Reject (config e) refreshError) es
       \<and> failedQueue s2 = [] \<and> \<not> isRefreshing s2 \<and> awaiting s2 = []
       \<and> authToken s2 = None \<and> \<not> isAuthenticated s2 \<and> currentUser s2 = None
       \<and> activeTab s2 = ''login''
       \<and> message s2 = ''Session expired. Please log in again.''
       \<and> messageType s2 = ''error''"
proof -
  let ?sent = "requestInterceptor s refreshRequest"
  let ?r0 = "(config e0)\<lparr>retry := True\<rparr>"
  have s1: "s1 = s\<lparr>isRefreshing := True, awaiting := [(?r0, ?sent)],
                    failedQueue := map config es\<rparr>"
    using burst burst_state [OF reach idle elig] by simp
  have aw: "awaiting s1 = [(?r0, ?sent)]" and q: "failedQueue s1 = map config es"
    using s1 by simp_all
  have sent: "url ?sent = ''/refresh-token''" "\<not> retry ?sent"
    using requestInterceptor_refreshRequest by simp_all
  have ko: "refresh_rejected s1 st msg =
      (displayMessage ''Session expired. Please log in again.'' ''error''
         (clearAuthState (s1\<lparr>awaiting := [], isRefreshing := False, failedQueue := []\<rparr>)),
       Reject ?r0 \<lparr>config = ?sent, status = st, err_message = msg\<rparr>
         # map (\<lambda>r. Reject r \<lparr>config = ?sent, status = st, err_message = msg\<rparr>)
             (failedQueue s1))"
    using aw sent by (rule refresh_rejected_one)
  have s2: "s2 = displayMessage ''Session expired. Please log in again.'' ''error''
         (clearAuthState (s1\<lparr>awaiting := [], isRefreshing := False, failedQueue := []\<rparr>))"
    and out2: "out2 = Reject ?r0 refreshError # map (\<lambda>r. Reject r refreshError) (failedQueue s1)"
    using ko fail err by simp_all
  show ?thesis using s2 out2 q by (simp add: displayMessage_def clearAuthState_def comp_def)
qed

text \<open>
  Claim C7. A failure of a request that is marked as retried, a second 401 in
  particular, leaves the state as it is (nothing is queued, no refresh is sent)
  and rejects the promise of the request with that failure. So it is for a 401
  that answers a request the coordinator has replayed.
\<close>

theorem retried_request_fails_immediately:
  assumes "retry (config e)"
  shows "responseInterceptor s e = (s, [Reject (config e) e])
       \<and> responseInterceptor s
             \<lparr>config = replay token r, status = Some 401, err_message = msg\<rparr>
           = (s, [Reject (replay token r)
                    \<lparr>config = replay token r, status = Some 401, err_message = msg\<rparr>])"
  using assms by (simp add: responseInterceptor_def replay_def Let_def)

text \<open>
  Claim C8. A 401 for a request to \<open>/login\<close> or \<open>/refresh-token\<close> clears the
  authentication state, the stored token with it, and rejects the promise of the
  request with that error; nothing is sent or queued, and the flag is left as it
  is. The request is not marked as retried: the coordinator is the only one to
  set the mark and never sets it on a request to these two endpoints.
\<close>

theorem auth_endpoint_401_clears_credential:
  assumes "status e = Some 401"
      and "url (config e) = ''/login'' \<or> url (config e) = ''/refresh-token''"
      and "\<not> retry (config e)"
  shows "responseInterceptor s e = (clearAuthState s, [Reject (config e) e])
       \<and> authToken (clearAuthState s) = None
       \<and> \<not> isAuthenticated (clearAuthState s)
       \<and> failedQueue (clearAuthState s) = failedQueue s
       \<and> awaiting (clearAuthState s) = awaiting s
       \<and> isRefreshing (clearAuthState s) = isRefreshing s"
  using assms by (auto simp: responseInterceptor_def Let_def clearAuthState_def)

text \<open>
  A request that the coordinator sends with the retry mark is not a request to
  \<open>/login\<close> or \<open>/refresh-token\<close>.
\<close>

lemma retry_mark_never_on_auth_endpoint:
  assumes "coordinator_inv s" and "Dispatch r \<in> set (snd (step s ev))" and "retry r"
  shows "url r \<noteq> ''/refresh-token'' \<and> url r \<noteq> ''/login''"
proof (cases ev)
  case (ResponseError e)
  then show ?thesis using assms
    by (auto simp: responseInterceptor_def Let_def requestInterceptor_refreshRequest
        split: if_splits)
next
  case (RefreshFulfilled t)
  then show ?thesis using assms
    by (cases "awaiting s")
       (auto simp: refresh_fulfilled_def processQueue_def Let_def coordinator_inv_def
          replay_def list_all_iff)
next
  case (RefreshRejected st msg)
  then show ?thesis using assms
    by (cases "awaiting s") (auto simp: refresh_rejected_def processQueue_def Let_def)
next
  case (LoginSucceeded t u)
  then show ?thesis using assms by simp
next
  case LoggedOut
  then show ?thesis using assms by simp
qed


section \<open>The claims at concrete inputs\<close>

text \<open>
  The library parameters are instantiated with simple functions: the hash of a
  password is the password, or the bytes of it that bcrypt reads, after a dollar
  sign, and a token is its payload.
\<close>

theorem register_twice_conflict_witness:
  "findOne [] ''a@x.com'' = None
   \<and> registerUser (\<lambda>p r s. CHR ''$'' # p) ''s1'' ''id1'' [] ''a@x.com'' ''password1'' None
       = (Inr [(''_id'', ''id1''), (''email'', ''a@x.com'')],
          [\<lparr>doc_id = ''id1'', email = ''a@x.com'', passwordHash = ''$password1'',
            name = None\<rparr>])
   \<and> registerUser (\<lambda>p r s. CHR ''$'' # p) ''s2'' ''id2''
         [\<lparr>doc_id = ''id1'', email = ''a@x.com'', passwordHash = ''$password1'', name = None\<rparr>]
         ''a@x.com'' ''password2'' (Some ''Ann'')
       = (Inl (ConflictException ''User with this email already exists''),
          [\<lparr>doc_id = ''id1'', email = ''a@x.com'', passwordHash = ''$password1'',
            name = None\<rparr>])"
proof -
  have first: "findOne [] ''a@x.com'' = None" by (simp add: findOne_def)
  have db1: "[\<lparr>doc_id = ''id1'', email = ''a@x.com'', passwordHash = ''$password1'', name = None\<rparr>]
      = snd (registerUser (\<lambda>p r s. CHR ''$'' # p) ''s1'' ''id1'' [] ''a@x.com'' ''password1'' None)"
    by (simp add: registerUser_def findOne_def Let_def)
  have db2: "[\<lparr>doc_id = ''id1'', email = ''a@x.com'', passwordHash = ''$password1'', name = None\<rparr>]
      = register_all (\<lambda>p r s. CHR ''$'' # p)
          [\<lparr>doc_id = ''id1'', email = ''a@x.com'', passwordHash = ''$password1'', name = None\<rparr>] []"
    by simp
  from register_twice_conflict [OF first db1 db2, of "''s2''" "''id2''" "''password2''" "Some ''Ann''"]
  show ?thesis using first by (auto simp: omit_passwordHash_def toJSON_def registerUser_def Let_def)
qed

theorem login_registered_user_witness:
  "controller_login (bootstrap None None) top bcrypt72_compare id
      (register_all bcrypt72_hash
         (snd (registerUser bcrypt72_hash ''s1'' ''id1'' []
                 ''a@x.com'' ''password1'' (Some ''Ann'')))
         [\<lparr>reg_salt = ''s2'', reg_oid = ''id2'', reg_email = ''b@x.com'',
           reg_password = ''password2'', reg_name = None\<rparr>])
      ''a@x.com'' ''password1''
     = (201,
        Inr \<lparr>user = [(''_id'', ''id1''), (''email'', ''a@x.com''), (''name'', ''Ann'')],
             accessToken = \<lparr>payload_name = Some ''Ann'', payload_iat = None,
                             payload_email = ''a@x.com'', payload_sub = ''id1''\<rparr>\<rparr>)
   \<and> login_attempts 3 (bootstrap None None) top bcrypt72_compare id
      (register_all bcrypt72_hash
         (snd (registerUser bcrypt72_hash ''s1'' ''id1'' []
                 ''a@x.com'' ''password1'' (Some ''Ann'')))
         [\<lparr>reg_salt = ''s2'', reg_oid = ''id2'', reg_email = ''b@x.com'',
           reg_password = ''password2'', reg_name = None\<rparr>])
      ''a@x.com'' ''password9''
     = [(401, Inl (UnauthorizedException ''Invalid credentials'')),
        (401, Inl (UnauthorizedException ''Invalid credentials'')),
        (401, Inl (UnauthorizedException ''Invalid credentials''))]"
proof -
  have bcrypt: "bcrypt_reads_72 bcrypt72_hash bcrypt72_compare"
    by (auto simp: bcrypt_reads_72_def bcrypt72_hash_def bcrypt72_compare_def)
  have jwt_ok: "jwt_roundtrip id Some" by (simp add: jwt_roundtrip_def)
  have fresh: "findOne [] ''a@x.com'' = None" by (simp add: findOne_def)
  have differs: "take 72 ''password9'' \<noteq> take 72 ''password1''" by simp
  have upt3: "[0..<3] = [0, 1, 2::nat]" by code_simp
  from login_registered_user [where compare = bcrypt72_compare and hash = bcrypt72_hash
      and sign = id and decode = Some
      and db = "[]" and em = "''a@x.com''" and salt = "''s1''" and oid = "''id1''"
      and pw = "''password1''" and nm = "Some ''Ann''" and n = 3 and isEmail = top
      and rs = "[\<lparr>reg_salt = ''s2'', reg_oid = ''id2'', reg_email = ''b@x.com'',
           reg_password = ''password2'', reg_name = None\<rparr>]"
      and FRONTEND_URL = None and PORT = None, OF bcrypt jwt_ok fresh refl refl refl]
    differs
  show ?thesis
    by (simp add: registerUser_def findOne_def Let_def loginUser_def login_attempts_def
        controller_login_def success_status_def bootstrap_def NestFactory_create_def
        bcrypt72_hash_def bcrypt72_compare_def toJSON_def omit_passwordHash_def upt3)
qed

text \<open>
  Claim C4 as stated fails twice at one user, registered with a password of 73
  bytes. Login with that password is answered with status 201, not 200. Login
  with a password that differs from it in the last byte alone, which bcrypt does
  not read, is answered like the first and not with 401.
\<close>

theorem login_wrong_password_beyond_72_bytes:
  "controller_login (bootstrap None None) top bcrypt72_compare id
      (snd (registerUser bcrypt72_hash ''s1'' ''id1'' [] ''a@x.com''
              ''correcthorsebatterystaplecorrecthorsebatterystaplecorrecthorsebatterysta1'' None))
      ''a@x.com''
      ''correcthorsebatterystaplecorrecthorsebatterystaplecorrecthorsebatterysta1''
     = (201,
        Inr \<lparr>user = [(''_id'', ''id1''), (''email'', ''a@x.com'')],
             accessToken = \<lparr>payload_name = None, payload_iat = None,
                             payload_email = ''a@x.com'', payload_sub = ''id1''\<rparr>\<rparr>)
   \<and> controller_login (bootstrap None None) top bcrypt72_compare id
      (snd (registerUser bcrypt72_hash ''s1'' ''id1'' [] ''a@x.com''
              ''correcthorsebatterystaplecorrecthorsebatterystaplecorrecthorsebatterysta1'' None))
      ''a@x.com''
      ''correcthorsebatterystaplecorrecthorsebatterystaplecorrecthorsebatterysta2''
     = (201,
        Inr \<lparr>user = [(''_id'', ''id1''), (''email'', ''a@x.com'')],
             accessToken = \<lparr>payload_name = None, payload_iat = None,
                             payload_email = ''a@x.com'', payload_sub = ''id1''\<rparr>\<rparr>)
   \<and> ''correcthorsebatterystaplecorrecthorsebatterystaplecorrecthorsebatterysta1''
     \<noteq> ''correcthorsebatterystaplecorrecthorsebatterystaplecorrecthorsebatterysta2''"
  by (simp add: registerUser_def findOne_def Let_def loginUser_def
      controller_login_def success_status_def bootstrap_def NestFactory_create_def
      bcrypt72_hash_def bcrypt72_compare_def toJSON_def omit_passwordHash_def)

theorem register_stores_hash_only_witness:
  "findOne [] ''a@x.com'' = None
   \<and> registerUser (\<lambda>p r s. CHR ''$'' # p) ''s1'' ''id1'' [] ''a@x.com'' ''password1'' (Some ''Ann'')
       = (Inr [(''_id'', ''id1''), (''email'', ''a@x.com''), (''name'', ''Ann'')],
          [\<lparr>doc_id = ''id1'', email = ''a@x.com'', passwordHash = ''$password1'',
            name = Some ''Ann''\<rparr>])
   \<and> snd ` set (toJSON \<lparr>doc_id = ''id1'', email = ''a@x.com'', passwordHash = ''$password1'',
            name = Some ''Ann''\<rparr>) = {''id1'', ''a@x.com'', ''$password1'', ''Ann''}"
proof -
  have fresh: "findOne [] ''a@x.com'' = None" by (simp add: findOne_def)
  from register_stores_hash_only [OF fresh, of "\<lambda>p r s. CHR ''$'' # p" "''s1''" "''id1''"
      "''password1''" "Some ''Ann''"]
  show ?thesis using fresh
    by (auto simp: registerUser_def Let_def toJSON_def omit_passwordHash_def)
qed

theorem login_failure_indistinguishable_witness:
  "loginUser (\<lambda>p h. h = CHR ''$'' # p) (\<lambda>p. p)
      [\<lparr>doc_id = ''id1'', email = ''a@x.com'', passwordHash = ''$password1'', name = None\<rparr>]
      ''nobody@x.com'' ''password1''
   = loginUser (\<lambda>p h. h = CHR ''$'' # p) (\<lambda>p. p)
      [\<lparr>doc_id = ''id1'', email = ''a@x.com'', passwordHash = ''$password1'', name = None\<rparr>]
      ''a@x.com'' ''password9''
   \<and> findOne
      [\<lparr>doc_id = ''id1'', email = ''a@x.com'', passwordHash = ''$password1'', name = None\<rparr>]
      ''nobody@x.com'' = None
   \<and> findOne
      [\<lparr>doc_id = ''id1'', email = ''a@x.com'', passwordHash = ''$password1'', name = None\<rparr>]
      ''a@x.com''
      = Some \<lparr>doc_id = ''id1'', email = ''a@x.com'', passwordHash = ''$password1'', name = None\<rparr>"
proof -
  let ?db = "[\<lparr>doc_id = ''id1'', email = ''a@x.com'', passwordHash = ''$password1'', name = None\<rparr>]"
  have unknown: "findOne ?db ''nobody@x.com'' = None" by (simp add: findOne_def)
  have known: "findOne ?db ''a@x.com'' = Some \<lparr>doc_id = ''id1'', email = ''a@x.com'',
      passwordHash = ''$password1'', name = None\<rparr>" by (simp add: findOne_def)
  from login_failure_indistinguishable [where compare = "\<lambda>p h. h = CHR ''$'' # p"
      and sign = "\<lambda>p. p" and db = ?db and ?em1.0 = "''nobody@x.com''"
      and ?em2.0 = "''a@x.com''" and ?pw1.0 = "''password1''" and ?pw2.0 = "''password9''",
      OF unknown known]
  show ?thesis using unknown known by simp
qed

theorem single_refresh_for_concurrent_401s_witness:
  "snd (run (initial (Some ''old''))
         (map ResponseError
           [\<lparr>config = \<lparr>req_method = ''GET'', url = ''/profile'', data = [],
                       Authorization = Some ''Bearer old'', retry = False\<rparr>,
             status = Some 401, err_message = ''Unauthorized''\<rparr>,
            \<lparr>config = \<lparr>req_method = ''GET'', url = ''/profile'', data = [],
                       Authorization = Some ''Bearer old'', retry = False\<rparr>,
             status = Some 401, err_message = ''Unauthorized''\<rparr>]))
     = [Dispatch \<lparr>req_method = ''post'', url = ''/refresh-token'', data = [],
                  Authorization = Some ''Bearer old'', retry = False\<rparr>]
   \<and> snd (refresh_fulfilled
         (fst (run (initial (Some ''old''))
           (map ResponseError
             [\<lparr>config = \<lparr>req_method = ''GET'', url = ''/profile'', data = [],
                         Authorization = Some ''Bearer old'', retry = False\<rparr>,
               status = Some 401, err_message = ''Unauthorized''\<rparr>,
              \<lparr>config = \<lparr>req_method = ''GET'', url = ''/profile'', data = [],
                         Authorization = Some ''Bearer old'', retry = False\<rparr>,
               status = Some 401, err_message = ''Unauthorized''\<rparr>]))) ''new'')
     = [Dispatch \<lparr>req_method = ''GET'', url = ''/profile'', data = [],
                  Authorization = Some ''Bearer new'', retry = True\<rparr>,
        Dispatch \<lparr>req_method = ''GET'', url = ''/profile'', data = [],
                  Authorization = Some ''Bearer new'', retry = True\<rparr>]"
proof -
  let ?e = "\<lparr>config = \<lparr>req_method = ''GET'', url = ''/profile'', data = [],
                       Authorization = Some ''Bearer old'', retry = False\<rparr>,
             status = Some 401, err_message = ''Unauthorized''\<rparr>"
  let ?s = "initial (Some ''old'')"
  have reach: "?s = fst (run (initial (Some ''old'')) [])" by simp
  have idle: "\<not> isRefreshing ?s" by (simp add: initial_def)
  have elig: "list_all eligible [?e, ?e]" by (simp add: eligible_def)
  have burst: "run ?s (map ResponseError [?e, ?e])
                 = (fst (run ?s (map ResponseError [?e, ?e])),
                    snd (run ?s (map ResponseError [?e, ?e])))" by simp
  have sent: "requestInterceptor ?s refreshRequest
      = \<lparr>req_method = ''post'', url = ''/refresh-token'', data = [],
                  Authorization = Some ''Bearer old'', retry = False\<rparr>"
    by (simp add: requestInterceptor_def refreshRequest_def initial_def truthy_def bearer_def)
  from single_refresh_for_concurrent_401s [OF reach idle elig burst, of "''new''"]
  show ?thesis by (simp add: sent replay_def bearer_def)
qed

theorem refresh_failure_releases_and_clears_witness:
  "refresh_rejected
     (fst (run (initial (Some ''old''))
        (map ResponseError
           [\<lparr>config = \<lparr>req_method = ''GET'', url = ''/profile'', data = [],
                       Authorization = Some ''Bearer old'', retry = False\<rparr>,
             status = Some 401, err_message = ''Unauthorized''\<rparr>,
            \<lparr>config = \<lparr>req_method = ''GET'', url = ''/profile'', data = [],
                       Authorization = Some ''Bearer old'', retry = False\<rparr>,
             status = Some 401, err_message = ''Unauthorized''\<rparr>])))
     None ''Network Error''
   = (\<lparr>isRefreshing = False, failedQueue = [], awaiting = [], authToken = None,
       isAuthenticated = False, currentUser = None, activeTab = ''login'',
       message = ''Session expired. Please log in again.'', messageType = ''error''\<rparr>,
      [Reject \<lparr>req_method = ''GET'', url = ''/profile'', data = [],
                Authorization = Some ''Bearer old'', retry = True\<rparr>
         \<lparr>config = \<lparr>req_method = ''post'', url = ''/refresh-token'', data = [],
                    Authorization = Some ''Bearer old'', retry = False\<rparr>,
          status = None, err_message = ''Network Error''\<rparr>,
       Reject \<lparr>req_method = ''GET'', url = ''/profile'', data = [],
                Authorization = Some ''Bearer old'', retry = False\<rparr>
         \<lparr>config = \<lparr>req_method = ''post'', url = ''/refresh-token'', data = [],
                    Authorization = Some ''Bearer old'', retry = False\<rparr>,
          status = None, err_message = ''Network Error''\<rparr>])"
proof -
  let ?e = "\<lparr>config = \<lparr>req_method = ''GET'', url = ''/profile'', data = [],
                       Authorization = Some ''Bearer old'', retry = False\<rparr>,
             status = Some 401, err_message = ''Unauthorized''\<rparr>"
  let ?s = "initial (Some ''old'')"
  let ?s1 = "fst (run ?s (map ResponseError [?e, ?e]))"
  have reach: "?s = fst (run (initial (Some ''old'')) [])" by simp
  have idle: "\<not> isRefreshing ?s" by (simp add: initial_def)
  have elig: "list_all eligible [?e, ?e]" by (simp add: eligible_def)
  have burst: "run ?s (map ResponseError [?e, ?e])
                 = (?s1, snd (run ?s (map ResponseError [?e, ?e])))" by simp
  have fail: "refresh_rejected ?s1 None ''Network Error''
                = (fst (refresh_rejected ?s1 None ''Network Error''),
                   snd (refresh_rejected ?s1 None ''Network Error''))" by simp
  have sent: "requestInterceptor ?s refreshRequest
      = \<lparr>req_method = ''post'', url = ''/refresh-token'', data = [],
                  Authorization = Some ''Bearer old'', retry = False\<rparr>"
    by (simp add: requestInterceptor_def refreshRequest_def initial_def truthy_def bearer_def)
  have st: "fst (refresh_rejected ?s1 None ''Network Error'')
     = \<lparr>isRefreshing = False, failedQueue = [], awaiting = [], authToken = None,
       isAuthenticated = False, currentUser = None, activeTab = ''login'',
       message = ''Session expired. Please log in again.'', messageType = ''error''\<rparr>"
    by (simp add: refresh_rejected_def responseInterceptor_def processQueue_def Let_def
        clearAuthState_def displayMessage_def initial_def sent truthy_def eligible_def)
  from refresh_failure_releases_and_clears [OF reach idle elig burst fail refl]
  have "snd (refresh_rejected ?s1 None ''Network Error'')
     = [Reject \<lparr>req_method = ''GET'', url = ''/profile'', data = [],
                Authorization = Some ''Bearer old'', retry = True\<rparr>
         \<lparr>config = \<lparr>req_method = ''post'', url = ''/refresh-token'', data = [],
                    Authorization = Some ''Bearer old'', retry = False\<rparr>,
          status = None, err_message = ''Network Error''\<rparr>,
       Reject \<lparr>req_method = ''GET'', url = ''/profile'', data = [],
                Authorization = Some ''Bearer old'', retry = False\<rparr>
         \<lparr>config = \<lparr>req_method = ''post'', url = ''/refresh-token'', data = [],
                    Authorization = Some ''Bearer old'', retry = False\<rparr>,
          status = None, err_message = ''Network Error''\<rparr>]"
    by (simp add: sent)
  with st show ?thesis by (simp add: prod_eq_iff)
qed

text \<open>
  Claim C2 as stated fails: a request to \<open>/profile\<close> receives a 401 and the
  refresh call then fails with a network error. The promise of the request is
  rejected with the error of the refresh call, which is not the 401 error of the
  request.
\<close>

theorem refresh_failure_propagates_refresh_error:
  "snd (run (initial (Some ''old''))
         [ResponseError
            \<lparr>config = \<lparr>req_method = ''GET'', url = ''/profile'', data = [],
                       Authorization = Some ''Bearer old'', retry = False\<rparr>,
             status = Some 401, err_message = ''Unauthorized''\<rparr>,
          RefreshRejected None ''Network Error''])
   = [Dispatch \<lparr>req_method = ''post'', url = ''/refresh-token'', data = [],
                Authorization = Some ''Bearer old'', retry = False\<rparr>,
      Reject \<lparr>req_method = ''GET'', url = ''/profile'', data = [],
              Authorization = Some ''Bearer old'', retry = True\<rparr>
        \<lparr>config = \<lparr>req_method = ''post'', url = ''/refresh-token'', data = [],
                   Authorization = Some ''Bearer old'', retry = False\<rparr>,
         status = None, err_message = ''Network Error''\<rparr>]
   \<and> \<lparr>config = \<lparr>req_method = ''post'', url = ''/refresh-token'', data = [],
                   Authorization = Some ''Bearer old'', retry = False\<rparr>,
         status = None, err_message = ''Network Error''\<rparr>
     \<noteq> \<lparr>config = \<lparr>req_method = ''GET'', url = ''/profile'', data = [],
                       Authorization = Some ''Bearer old'', retry = False\<rparr>,
             status = Some 401, err_message = ''Unauthorized''\<rparr>"
  by (simp add: responseInterceptor_def refresh_rejected_def processQueue_def Let_def
      clearAuthState_def displayMessage_def initial_def requestInterceptor_def
      refreshRequest_def truthy_def bearer_def)

theorem retried_request_fails_immediately_witness:
  "responseInterceptor (initial (Some ''new''))
     \<lparr>config = \<lparr>req_method = ''GET'', url = ''/profile'', data = [],
                Authorization = Some ''Bearer new'', retry = True\<rparr>,
      status = Some 401, err_message = ''Unauthorized''\<rparr>
   = (initial (Some ''new''),
      [Reject \<lparr>req_method = ''GET'', url = ''/profile'', data = [],
                Authorization = Some ''Bearer new'', retry = True\<rparr>
         \<lparr>config = \<lparr>req_method = ''GET'', url = ''/profile'', data = [],
                    Authorization = Some ''Bearer new'', retry = True\<rparr>,
          status = Some 401, err_message = ''Unauthorized''\<rparr>])"
  using retried_request_fails_immediately
    [of "\<lparr>config = \<lparr>req_method = ''GET'', url = ''/profile'', data = [],
                Authorization = Some ''Bearer new'', retry = True\<rparr>,
      status = Some 401, err_message = ''Unauthorized''\<rparr>" "initial (Some ''new'')"]
  by simp

theorem auth_endpoint_401_clears_credential_witness:
  "responseInterceptor (initial (Some ''old''))
     \<lparr>config = \<lparr>req_method = ''POST'', url = ''/login'', data = ''{}'',
                Authorization = Some ''Bearer old'', retry = False\<rparr>,
      status = Some 401, err_message = ''Invalid credentials''\<rparr>
   = (\<lparr>isRefreshing = False, failedQueue = [], awaiting = [], authToken = None,
       isAuthenticated = False, currentUser = None, activeTab = ''login'',
       message = [], messageType = []\<rparr>,
      [Reject \<lparr>req_method = ''POST'', url = ''/login'', data = ''{}'',
                Authorization = Some ''Bearer old'', retry = False\<rparr>
         \<lparr>config = \<lparr>req_method = ''POST'', url = ''/login'', data = ''{}'',
                Authorization = Some ''Bearer old'', retry = False\<rparr>,
          status = Some 401, err_message = ''Invalid credentials''\<rparr>])"
  using auth_endpoint_401_clears_credential
    [of "\<lparr>config = \<lparr>req_method = ''POST'', url = ''/login'', data = ''{}'',
                Authorization = Some ''Bearer old'', retry = False\<rparr>,
      status = Some 401, err_message = ''Invalid credentials''\<rparr>" "initial (Some ''old'')"]
  by (simp add: clearAuthState_def initial_def)

end
